theory Spec2Isabelle
  imports Main "HOL-Library.Word"
begin

unbundle bit_operations_syntax

section \<open>Result codes\<close>

text \<open>
  The kernel reports failures as \<^verbatim>\<open>int\<close> result codes named by macros
  (\<^verbatim>\<open>E_BUSY\<close>, \<^verbatim>\<open>E_DEADLK\<close>, \<^verbatim>\<open>E_INVALID\<close>, ...). The header that gives the macros
  their numbers (\<^verbatim>\<open>cmrx/defines.h\<close>) is not among the sources, so the codes are kept
  symbolic: a failure is \<open>Inl\<close> of the macro's name, and a plain integer return
  (\<^verbatim>\<open>return 0\<close>, \<^verbatim>\<open>return arg0\<close>) is \<open>Inr\<close> of that integer.
\<close>

datatype error =
    E_BUSY
  | E_DEADLK
  | E_INVALID
  | E_OUT_OF_RANGE
  | E_INVALID_ADDRESS
  | E_IN_TOO_DEEP

type_synonym retval = "error + int"

text \<open>
  Modelled from the spec: the macro \<^verbatim>\<open>E_OK\<close> of \<^verbatim>\<open>cmrx/defines.h\<close> is the success
  code, and success is 0 (section 4.5: success=0 / failure=nonzero).
\<close>

definition E_OK :: retval where
  "E_OK = Inr 0"

section \<open>Lock primitives (\<^verbatim>\<open>src/lib/mutex.c\<close>)\<close>

text \<open>
  \<^verbatim>\<open>futex_t\<close> and \<^verbatim>\<open>mutex_t\<close> are declared in \<^verbatim>\<open>cmrx/ipc/mutex.h\<close>, which is not
  among the sources; the code uses three byte-sized fields of them. State and owner
  are read with the byte instructions \<^verbatim>\<open>LDREXB\<close>/\<^verbatim>\<open>LDRB\<close> and compared with a
  \<^verbatim>\<open>uint8_t\<close> thread id, so they are bytes.
\<close>

record futex_t =
  state :: "8 word"
  owner :: "8 word"
  flags :: "8 word"

type_synonym mutex_t = futex_t

text \<open>
  \<^verbatim>\<open>STREXB\<close> stores only while the exclusive reservation taken by the preceding
  \<^verbatim>\<open>LDREXB\<close> still stands, and reports 0 when it stored and 1 when it did not. The
  functions below are run by one thread with nobody else touching the lock in between,
  so the only way the reservation is lost is a spurious failure; that is the Boolean
  \<open>excl\<close> every function takes (\<open>True\<close>: the reservation stands).
\<close>

definition STREXB :: "bool \<Rightarrow> 8 word \<Rightarrow> futex_t \<Rightarrow> int \<times> futex_t" where
  "STREXB excl v f = (if excl then (0, f\<lparr>state := v\<rparr>) else (1, f))"

text \<open>
  \<^verbatim>\<open>__futex_fast_lock\<close> is inline assembly. The registers are 32 bits wide: the two
  byte loads zero-extend, \<^verbatim>\<open>CMP\<close>/\<^verbatim>\<open>BGT\<close> is a signed comparison of the depth with
  \<^verbatim>\<open>max_depth\<close>, and \<^verbatim>\<open>STREXB\<close> stores the low byte of the incremented register.
  The assembly never writes the owner field.
\<close>

definition futex_fast_lock :: "bool \<Rightarrow> futex_t \<Rightarrow> 8 word \<Rightarrow> 32 word \<Rightarrow> int \<times> futex_t" where
  "futex_fast_lock excl futex thread_id max_depth =
    (let mutexState = (ucast (state futex) :: 32 word);
         mutexOwner = (ucast (owner futex) :: 32 word)
     in if mutexOwner \<noteq> 0xFF \<and> mutexOwner \<noteq> ucast thread_id then (1, futex)
        else if max_depth <s mutexState then (1, futex)
        else STREXB excl (ucast (mutexState + 1)) futex)"

definition futex_fast_unlock :: "bool \<Rightarrow> futex_t \<Rightarrow> 8 word \<Rightarrow> int \<times> futex_t" where
  "futex_fast_unlock excl futex thread_id =
    (let mutexState = (ucast (state futex) :: 32 word);
         mutexOwner = (ucast (owner futex) :: 32 word)
     in if mutexState = 0 then (1, futex)
        else if mutexOwner \<noteq> ucast thread_id then (1, futex)
        else STREXB excl (ucast (mutexState - 1)) futex)"


definition mutex_destroy :: "mutex_t \<Rightarrow> int \<times> mutex_t" where
  "mutex_destroy mutex = (0, mutex\<lparr>owner := 0xFF, flags := 0, state := 0\<rparr>)"

text \<open>
  \<^verbatim>\<open>mutex_lock\<close> loops until it has stored 1 into the state. The list holds, for each
  turn of the loop, whether an exclusive store made in that turn would succeed. While
  the lock is run alone, \<^verbatim>\<open>sched_yield\<close> changes nothing in it. A run whose list is used
  up without the function returning is \<open>None\<close>: it is still looping.
\<close>

fun mutex_lock :: "bool list \<Rightarrow> mutex_t \<Rightarrow> 8 word \<Rightarrow> (retval \<times> mutex_t) option" where
  "mutex_lock [] mutex thread_id = None"
| "mutex_lock (excl # rest) mutex thread_id =
    (let tmp_state = state mutex
     in if owner mutex \<noteq> thread_id \<and> owner mutex \<noteq> 0xFF then mutex_lock rest mutex thread_id
        else if tmp_state = 0 then
          (case STREXB excl 1 mutex of
             (success, mutex') \<Rightarrow>
               if success = 0 then Some (Inr 0, mutex'\<lparr>owner := thread_id\<rparr>)
               else mutex_lock rest mutex' thread_id)
        else mutex_lock rest mutex thread_id)"

definition mutex_trylock :: "bool \<Rightarrow> mutex_t \<Rightarrow> 8 word \<Rightarrow> retval \<times> mutex_t" where
  "mutex_trylock excl mutex thread_id =
    (let tmp_state = state mutex
     in if owner mutex \<noteq> thread_id then (Inl E_BUSY, mutex)
        else if tmp_state = 0 then
          (case STREXB excl 1 mutex of
             (success, mutex') \<Rightarrow>
               if success = 0 then (Inr 0, mutex'\<lparr>owner := thread_id\<rparr>)
               else (Inl E_DEADLK, mutex'))
        else (Inl E_DEADLK, mutex))"

text \<open>
  The \<^verbatim>\<open>do ... while (success != 0)\<close> loop of \<^verbatim>\<open>mutex_unlock\<close> repeats the exclusive
  store of 0 until it succeeds; the list holds the outcome of each attempt, and a list
  used up before a store succeeded is \<open>None\<close>.
\<close>

fun unlock_retry :: "bool list \<Rightarrow> mutex_t \<Rightarrow> mutex_t option" where
  "unlock_retry [] mutex = None"
| "unlock_retry (excl # rest) mutex =
    (case STREXB excl 0 mutex of
       (success, mutex') \<Rightarrow> if success \<noteq> 0 then unlock_retry rest mutex' else Some mutex')"

definition mutex_unlock :: "bool list \<Rightarrow> mutex_t \<Rightarrow> 8 word \<Rightarrow> (retval \<times> mutex_t) option" where
  "mutex_unlock excls mutex thread_id =
    (let tmp_state = state mutex
     in if owner mutex \<noteq> thread_id then Some (Inl E_BUSY, mutex)
        else if tmp_state = 0 then Some (Inr 0, mutex)
        else (case unlock_retry excls mutex of
                None \<Rightarrow> None
              | Some mutex' \<Rightarrow> Some (Inr 0, mutex'\<lparr>owner := 0xFF\<rparr>)))"

definition futex_init :: "futex_t \<Rightarrow> int \<times> futex_t" where
  "futex_init futex = (0, futex\<lparr>owner := 0xFF, state := 0, flags := 0\<rparr>)"

definition futex_trylock :: "bool \<Rightarrow> futex_t \<Rightarrow> 8 word \<Rightarrow> int \<times> futex_t" where
  "futex_trylock excl futex thread_id = futex_fast_lock excl futex thread_id 0"

definition futex_unlock :: "bool \<Rightarrow> futex_t \<Rightarrow> 8 word \<Rightarrow> int \<times> futex_t" where
  "futex_unlock excl futex thread_id =
    (case futex_fast_unlock excl futex thread_id of
       (success, futex') \<Rightarrow>
         if success = 0 \<and> state futex' = 0 then (success, futex'\<lparr>owner := 0xFF\<rparr>)
         else (success, futex'))"


text \<open>
  A test scenario, not kernel code: the same thread calls \<^verbatim>\<open>__futex_fast_lock\<close> \<open>n\<close>
  times in a row with the same \<^verbatim>\<open>max_depth\<close> and no spurious failure, and collects
  the results.
\<close>

fun repeat_fast_lock :: "nat \<Rightarrow> futex_t \<Rightarrow> 8 word \<Rightarrow> 32 word \<Rightarrow> int list \<times> futex_t" where
  "repeat_fast_lock 0 futex thread_id max_depth = ([], futex)"
| "repeat_fast_lock (Suc n) futex thread_id max_depth =
    (case futex_fast_lock True futex thread_id max_depth of
       (success, futex') \<Rightarrow>
         (case repeat_fast_lock n futex' thread_id max_depth of
            (rest, futex'') \<Rightarrow> (success # rest, futex'')))"





section \<open>Configuration (\<^verbatim>\<open>conf/kernel.h\<close>)\<close>

definition MPU_STATE_SIZE :: nat where
  "MPU_STATE_SIZE = 7"

definition MPU_HOSTED_STATE_SIZE :: nat where
  "MPU_HOSTED_STATE_SIZE = 4"

definition OS_TASK_MPU_REGIONS :: nat where
  "OS_TASK_MPU_REGIONS = 5"

definition OS_STACK_SIZE :: nat where
  "OS_STACK_SIZE = 1024"

definition OS_THREADS :: nat where
  "OS_THREADS = 8"

definition OS_STACKS :: nat where
  "OS_STACKS = 8"

definition OS_PROCESSES :: nat where
  "OS_PROCESSES = 8"

section \<open>Thread stacks and process table (\<^verbatim>\<open>src/os/arch/arm/sched.c\<close>)\<close>

subsection \<open>\<^verbatim>\<open>os_thread_populate_stack\<close>\<close>

text \<open>
  The stack arenas are an array of arrays of 32-bit words. \<^verbatim>\<open>stack_size\<close> is
  \<^verbatim>\<open>unsigned\<close>, so \<^verbatim>\<open>stack_size - 8\<close> wraps around below 8. C leaves an access outside
  the arena undefined; the model makes it \<open>None\<close>.
\<close>

type_synonym stack_t = "32 word list"

text \<open>
  Modelled from the spec: \<^verbatim>\<open>os_stack_get\<close> is not among the sources; section 3 has one
  fixed-size arena per stack id, and this returns the arena of the given id.
\<close>

definition os_stack_get :: "stack_t list \<Rightarrow> int \<Rightarrow> stack_t option" where
  "os_stack_get os_stacks stack_id =
    (if 0 \<le> stack_id \<and> nat stack_id < length os_stacks
     then Some (os_stacks ! nat stack_id) else None)"

definition store_word :: "stack_t \<Rightarrow> 32 word \<Rightarrow> 32 word \<Rightarrow> stack_t option" where
  \<comment> \<open>\<^verbatim>\<open>stack[i] = v\<close>\<close>
  "store_word stack i v = (if unat i < length stack then Some (stack[unat i := v]) else None)"

text \<open>
  The result is the updated arenas and the returned pointer \<^verbatim>\<open>&stack[stack_size - 16]\<close>,
  given as the index of the word it points to in the arena of \<open>stack_id\<close>. The address
  of \<^verbatim>\<open>os_thread_dispose\<close> is a parameter.
\<close>

definition os_thread_populate_stack ::
  "32 word \<Rightarrow> stack_t list \<Rightarrow> int \<Rightarrow> 32 word \<Rightarrow> 32 word \<Rightarrow> 32 word
     \<Rightarrow> (stack_t list \<times> nat) option" where
  "os_thread_populate_stack os_thread_dispose os_stacks stack_id stack_size entrypoint data =
    (case os_stack_get os_stacks stack_id of
       None \<Rightarrow> None
     | Some stack \<Rightarrow>
        (case store_word stack (stack_size - 8) data of
           None \<Rightarrow> None
         | Some stack1 \<Rightarrow>
            (case store_word stack1 (stack_size - 3) os_thread_dispose of
               None \<Rightarrow> None
             | Some stack2 \<Rightarrow>
                (case store_word stack2 (stack_size - 2) entrypoint of
                   None \<Rightarrow> None
                 | Some stack3 \<Rightarrow>
                    (case store_word stack3 (stack_size - 1) 0x01000000 of
                       None \<Rightarrow> None
                     | Some stack4 \<Rightarrow>
                        if unat (stack_size - 16) < length stack4
                        then Some (os_stacks[nat stack_id := stack4], unat (stack_size - 16))
                        else None)))))"

text \<open>
  Modelled from the spec: the context switch that resumes a thread is not among the
  sources. By section 4.2 the first resumption takes the first argument, the link
  register, the program counter and the status register from their slots of the
  initial context. \<^verbatim>\<open>os_boot_thread\<close> places that context eight words above the saved
  stack pointer (\<^verbatim>\<open>thread->sp + 8\<close>, skipping the words kept for R4-R11), and the
  comments of \<^verbatim>\<open>os_thread_populate_stack\<close> name the slots: of the eight words R0-R3,
  R12, LR, PC, xPSR of the context, R0 is the first and LR, PC and xPSR are the last
  three.
\<close>

record registers =
  R0 :: "32 word"
  LR :: "32 word"
  PC :: "32 word"
  xPSR :: "32 word"

definition exception_return :: "stack_t \<Rightarrow> nat \<Rightarrow> registers" where
  "exception_return stack sp =
    \<lparr>R0 = stack ! (sp + 8), LR = stack ! (sp + 13), PC = stack ! (sp + 14),
     xPSR = stack ! (sp + 15)\<rparr>"

text \<open>
  Modelled from the spec: an entrypoint that returns \<open>v\<close> hands \<open>v\<close> over in the
  first-argument register and continues at the address in the link register.
\<close>

definition function_return :: "32 word \<Rightarrow> registers \<Rightarrow> registers" where
  "function_return v c = c\<lparr>R0 := v, PC := LR c\<rparr>"

subsection \<open>\<^verbatim>\<open>os_process_create\<close>\<close>

type_synonym Process_t = "8 word"

record mpu_region =
  region_start :: "32 word"
  region_end :: "32 word"

record OS_process_definition_t =
  mpu_regions :: "mpu_region list"

record MPU_Registers =
  MPU_RBAR :: "32 word"
  MPU_RASR :: "32 word"

text \<open>
  A slot of \<^verbatim>\<open>os_processes\<close>: the pointer to the definition (\<open>None\<close> is \<^verbatim>\<open>NULL\<close>) and
  the region descriptors derived from it.
\<close>

record OS_process_t =
  process_definition :: "OS_process_definition_t option"
  mpu :: "MPU_Registers list"

text \<open>
  \<^verbatim>\<open>mpu_configure_region\<close> belongs to the protection-unit driver and is not among the
  sources. It is a parameter: from the region number, the start address, the size and
  the present content of the two registers it is given pointers to, it yields its
  result code and the content it leaves in the two registers.
\<close>

type_synonym mpu_configure_region_t =
  "nat \<Rightarrow> 32 word \<Rightarrow> 32 word \<Rightarrow> MPU_Registers \<Rightarrow> retval \<times> MPU_Registers"

definition set_mpu :: "OS_process_t list \<Rightarrow> nat \<Rightarrow> nat \<Rightarrow> MPU_Registers \<Rightarrow> OS_process_t list" where
  \<comment> \<open>\<^verbatim>\<open>os_processes[p].mpu[q] = r\<close>\<close>
  "set_mpu os_processes p q r =
    os_processes[p := (os_processes ! p)\<lparr>mpu := (mpu (os_processes ! p))[q := r]\<rparr>]"

definition set_definition ::
  "OS_process_t list \<Rightarrow> nat \<Rightarrow> OS_process_definition_t option \<Rightarrow> OS_process_t list" where
  \<comment> \<open>\<^verbatim>\<open>os_processes[p].definition = d\<close>\<close>
  "set_definition os_processes p d =
    os_processes[p := (os_processes ! p)\<lparr>process_definition := d\<rparr>]"

definition region_call ::
  "mpu_configure_region_t \<Rightarrow> OS_process_definition_t \<Rightarrow> nat \<Rightarrow> MPU_Registers
     \<Rightarrow> retval \<times> MPU_Registers" where
  \<comment> \<open>the call of \<^verbatim>\<open>mpu_configure_region\<close> for region \<open>q\<close>, with \<^verbatim>\<open>reg_size\<close> the
      wrapping difference of the two addresses\<close>
  "region_call mpu_configure_region defn q regs =
    (let reg_size = region_end (mpu_regions defn ! q) - region_start (mpu_regions defn ! q)
     in mpu_configure_region q (region_start (mpu_regions defn ! q)) reg_size regs)"

function configure_regions ::
  "mpu_configure_region_t \<Rightarrow> nat \<Rightarrow> OS_process_definition_t \<Rightarrow> nat \<Rightarrow> OS_process_t list
     \<Rightarrow> retval \<times> OS_process_t list" where
  "configure_regions mpu_configure_region p defn q os_processes =
    (if q < OS_TASK_MPU_REGIONS then
       (case region_call mpu_configure_region defn q (mpu (os_processes ! p) ! q) of
          (rv, regs) \<Rightarrow>
            if rv \<noteq> E_OK
            then (Inl E_INVALID, set_definition (set_mpu os_processes p q regs) p None)
            else configure_regions mpu_configure_region p defn (q + 1)
                   (set_mpu os_processes p q regs))
     else (E_OK, os_processes))"
  by pat_completeness auto
termination
  by (relation "measure (\<lambda>(c, p, d, q, ps). OS_TASK_MPU_REGIONS - q)") auto

declare configure_regions.simps [simp del]

text \<open>What the loop leaves when the first failing region from \<open>q\<close> on is \<open>k\<close>.\<close>

definition failed_at ::
  "mpu_configure_region_t \<Rightarrow> OS_process_definition_t \<Rightarrow> nat \<Rightarrow> nat \<Rightarrow> nat
     \<Rightarrow> OS_process_t list \<Rightarrow> OS_process_t list \<Rightarrow> bool" where
  "failed_at cfg defn p q k ps ps' \<longleftrightarrow>
     length ps' = length ps \<and>
     process_definition (ps' ! p) = None \<and>
     length (mpu (ps' ! p)) = length (mpu (ps ! p)) \<and>
     (\<forall>i. mpu (ps' ! p) ! i =
        (if q \<le> i \<and> i \<le> k then snd (region_call cfg defn i (mpu (ps ! p) ! i))
         else mpu (ps ! p) ! i)) \<and>
     (\<forall>p'. p' \<noteq> p \<longrightarrow> ps' ! p' = ps ! p')"

text \<open>
  \<^verbatim>\<open>definition\<close> points to a constant built at compile time; the model takes the
  definition itself, so a null argument is outside it.
\<close>

definition os_process_create ::
  "mpu_configure_region_t \<Rightarrow> OS_process_t list \<Rightarrow> Process_t \<Rightarrow> OS_process_definition_t
     \<Rightarrow> retval \<times> OS_process_t list" where
  "os_process_create mpu_configure_region os_processes process_id defn =
    (if OS_PROCESSES \<le> unat process_id then (Inl E_OUT_OF_RANGE, os_processes)
     else if process_definition (os_processes ! unat process_id) \<noteq> None
     then (Inl E_INVALID, os_processes)
     else configure_regions mpu_configure_region (unat process_id) defn 0
            (set_definition os_processes (unat process_id) (Some defn)))"


section \<open>Cross-process calls (\<^verbatim>\<open>src/os/arch/arm/rpc.c\<close>)\<close>

definition E_VTABLE_UNKNOWN :: Process_t where
  "E_VTABLE_UNKNOWN = 0xFF"

text \<open>
  The file works on three pieces of kernel state through helpers that are declared but
  not defined in the sources: the activation records on the thread's process stack
  (\<^verbatim>\<open>arch/cortex.h\<close>), the calling thread's stack of process ids
  (\<^verbatim>\<open>rpc_stack_push\<close>, \<^verbatim>\<open>rpc_stack_pop\<close>, \<^verbatim>\<open>rpc_stack_top\<close>) and the regions loaded
  into the protection unit (\<^verbatim>\<open>mpu_load\<close>). They are modelled as the spec describes
  them (sections 3, 4.1, 4.3 and 9): a list of activation records with the one at the
  process stack pointer first, a bounded list of process ids with the top first, and
  the active region descriptors by region number.
\<close>

record ExceptionFrame =
  arguments :: "nat \<Rightarrow> 32 word"
  frame_pc :: "32 word"
  frame_lr :: "32 word"

record kernel =
  os_processes :: "OS_process_t list"
  rpc_stack :: "Process_t list"
  home_process :: Process_t
  mpu_active :: "nat \<Rightarrow> MPU_Registers"
  frames :: "ExceptionFrame list"

text \<open>
  What the code reads from outside this state is a parameter: the lookup of the
  exporting process of a method table, the two memory reads \<^verbatim>\<open>service->vtable\<close> and
  \<^verbatim>\<open>vtable[method_id]\<close>, the address of \<^verbatim>\<open>rpc_return\<close>, the configured depth of the
  call stack, and the content that \<^verbatim>\<open>push_exception_frame\<close> gives the activation record
  it pushes.
\<close>

record rpc_env =
  get_vtable_process :: "OS_process_t list \<Rightarrow> 32 word \<Rightarrow> Process_t"
  service_vtable :: "32 word \<Rightarrow> 32 word"
  vtable_entry :: "32 word \<Rightarrow> 32 word \<Rightarrow> 32 word"
  rpc_return :: "32 word"
  rpc_stack_depth :: nat
  push_exception_frame :: "ExceptionFrame \<Rightarrow> nat \<Rightarrow> ExceptionFrame"

text \<open>
  Modelled from the spec: helper of \<^verbatim>\<open>arch/cortex.h\<close>, not among
  the sources; reads argument \<open>n\<close> of an activation record.
\<close>

definition get_exception_argument :: "ExceptionFrame \<Rightarrow> nat \<Rightarrow> 32 word" where
  "get_exception_argument frame n = arguments frame n"

text \<open>
  Modelled from the spec: helper of \<^verbatim>\<open>arch/cortex.h\<close>, not among
  the sources; writes argument \<open>n\<close> of an activation record.
\<close>

definition set_exception_argument :: "ExceptionFrame \<Rightarrow> nat \<Rightarrow> 32 word \<Rightarrow> ExceptionFrame" where
  "set_exception_argument frame n v = frame\<lparr>arguments := (arguments frame)(n := v)\<rparr>"

text \<open>
  Modelled from the spec: helper of \<^verbatim>\<open>arch/cortex.h\<close>, not among
  the sources; sets where the record resumes and its continuation.
\<close>

definition set_exception_pc_lr :: "ExceptionFrame \<Rightarrow> 32 word \<Rightarrow> 32 word \<Rightarrow> ExceptionFrame" where
  "set_exception_pc_lr frame pc lr = frame\<lparr>frame_pc := pc, frame_lr := lr\<rparr>"

text \<open>
  Modelled from the spec: \<^verbatim>\<open>rpc_stack_push\<close> is not among the
  sources; section 4.3: pushes the process id, and fails with no state change when the
  stack is already at capacity.
\<close>

definition rpc_stack_push :: "nat \<Rightarrow> Process_t \<Rightarrow> Process_t list \<Rightarrow> bool \<times> Process_t list" where
  "rpc_stack_push depth process_id stack =
    (if length stack < depth then (True, process_id # stack) else (False, stack))"

text \<open>
  Modelled from the spec: \<^verbatim>\<open>rpc_stack_pop\<close> is not among the
  sources; section 4.3: pops the top entry; the result is the depth that is left.
\<close>

definition rpc_stack_pop :: "Process_t list \<Rightarrow> int \<times> Process_t list" where
  "rpc_stack_pop stack = (int (length (tl stack)), tl stack)"

text \<open>
  Modelled from the spec: \<^verbatim>\<open>rpc_stack_top\<close> is not among the
  sources; the id on top of the stack. The code calls it on a non-empty stack only.
\<close>

definition rpc_stack_top :: "Process_t list \<Rightarrow> Process_t" where
  "rpc_stack_top stack = hd stack"

text \<open>
  Modelled from the spec: \<^verbatim>\<open>os_get_current_process\<close> is not among
  the sources; by the comment at its call it is the process that owns the current
  thread.
\<close>

definition os_get_current_process :: "kernel \<Rightarrow> Process_t" where
  "os_get_current_process s = home_process s"

text \<open>
  Modelled from the spec: \<^verbatim>\<open>mpu_load\<close> is not among the sources;
  section 4.1: puts the first \<open>count\<close> descriptors of the given set into the
  active mapping, from region \<open>base\<close> on.
\<close>

definition mpu_load ::
  "MPU_Registers list \<Rightarrow> nat \<Rightarrow> nat \<Rightarrow> (nat \<Rightarrow> MPU_Registers) \<Rightarrow> (nat \<Rightarrow> MPU_Registers)" where
  "mpu_load regs base count active =
    (\<lambda>i. if base \<le> i \<and> i < base + count then regs ! (i - base) else active i)"

text \<open>
  A call ends in one of three ways: it returns a result code with the state it leaves;
  the kernel halts (\<^verbatim>\<open>ASSERT(0)\<close>; \<^verbatim>\<open>cmrx/assert.h\<close> is not among the sources, and the
  spec makes the condition fatal); or it reads outside the modelled state (a process
  id beyond the table, an activation record that is not there), which C leaves
  undefined. \<^verbatim>\<open>sanitize_psp\<close> (\<^verbatim>\<open>cmrx/os/sanitize.h\<close>, not among the sources) checks the
  stack pointer and is left out.
\<close>

datatype outcome = Returned retval kernel | Halted | Undefined

definition os_rpc_call ::
  "rpc_env \<Rightarrow> kernel \<Rightarrow> 32 word \<Rightarrow> 32 word \<Rightarrow> 32 word \<Rightarrow> 32 word \<Rightarrow> outcome" where
  "os_rpc_call env s arg0 arg1 arg2 arg3 =
    (case frames s of
       [] \<Rightarrow> Undefined
     | local_frame # stacked \<Rightarrow>
        (let service = get_exception_argument local_frame 4;
             vtable = service_vtable env service;
             process_id = get_vtable_process env (os_processes s) vtable
         in if process_id = E_VTABLE_UNKNOWN then Returned (Inl E_INVALID_ADDRESS) s
            else
              (case rpc_stack_push (rpc_stack_depth env) process_id (rpc_stack s) of
                 (pushed, stack') \<Rightarrow>
                   if \<not> pushed then Returned (Inl E_IN_TOO_DEEP) (s\<lparr>rpc_stack := stack'\<rparr>)
                   else if \<not> unat process_id < length (os_processes s) then Undefined
                   else
                     (let active = mpu_load (mpu (os_processes s ! unat process_id)) 0
                                     MPU_HOSTED_STATE_SIZE (mpu_active s);
                          method_id = get_exception_argument local_frame 5;
                          method = vtable_entry env vtable method_id;
                          remote_frame = push_exception_frame env local_frame 2;
                          remote_frame = fold (\<lambda>q frame. set_exception_argument frame (q + 1)
                                                 (get_exception_argument local_frame q))
                                           [0..<4] remote_frame;
                          remote_frame = set_exception_argument remote_frame 0 service;
                          remote_frame = set_exception_argument remote_frame 5 0xAA55AA55;
                          remote_frame = set_exception_pc_lr remote_frame method (rpc_return env)
                      in Returned (Inr (sint arg0))
                           (s\<lparr>rpc_stack := stack', mpu_active := active,
                              frames := remote_frame # local_frame # stacked\<rparr>)))))"

definition os_rpc_return :: "kernel \<Rightarrow> 32 word \<Rightarrow> 32 word \<Rightarrow> 32 word \<Rightarrow> 32 word \<Rightarrow> outcome" where
  "os_rpc_return s arg0 arg1 arg2 arg3 =
    (case frames s of
       remote_frame # local_frame # stacked \<Rightarrow>
        (case rpc_stack_pop (rpc_stack s) of
           (pstack_depth, stack') \<Rightarrow>
             (let s1 = s\<lparr>rpc_stack := stack'\<rparr>;
                  process_id = (if 0 < pstack_depth then rpc_stack_top stack'
                                else os_get_current_process s1)
              in if process_id = E_VTABLE_UNKNOWN then Halted
                 else if \<not> unat process_id < length (os_processes s1) then Undefined
                 else
                   (let active = mpu_load (mpu (os_processes s1 ! unat process_id)) 0
                                   MPU_HOSTED_STATE_SIZE (mpu_active s1);
                        local_frame = set_exception_argument local_frame 0 arg0
                    in Returned (Inr (sint arg0))
                         (s1\<lparr>mpu_active := active, frames := local_frame # stacked\<rparr>))))
     | _ \<Rightarrow> Undefined)"


subsection \<open>An example configuration\<close>

text \<open>
  Three processes with distinct region sets, a thread with three activation records,
  and a method table at \<^verbatim>\<open>0x08004000\<close> exported by process 1; the call stack holds
  at most two entries.
\<close>

definition example_env :: rpc_env where
  "example_env =
    \<lparr>get_vtable_process = (\<lambda>table vtable. if vtable = 0x08004000 then 1 else 0xFF),
     service_vtable = (\<lambda>service. service + 0x1000),
     vtable_entry = (\<lambda>vtable method_id. vtable + 4 * method_id),
     rpc_return = 0x08000801,
     rpc_stack_depth = 2,
     push_exception_frame = (\<lambda>frame args. frame)\<rparr>"

definition example_process :: "32 word \<Rightarrow> OS_process_t" where
  "example_process base =
    \<lparr>process_definition = None, mpu = replicate 5 \<lparr>MPU_RBAR = base, MPU_RASR = 0x13\<rparr>\<rparr>"

definition example_frame :: "32 word \<Rightarrow> ExceptionFrame" where
  "example_frame service =
    \<lparr>arguments = (\<lambda>n. if n = 4 then service else 0), frame_pc = 0, frame_lr = 0\<rparr>"

definition example_kernel :: "32 word \<Rightarrow> Process_t list \<Rightarrow> Process_t \<Rightarrow> kernel" where
  "example_kernel service stack home =
    \<lparr>os_processes = [example_process 0x20000000, example_process 0x20001000,
                     example_process 0x20002000],
     rpc_stack = stack,
     home_process = home,
     mpu_active = (\<lambda>i. \<lparr>MPU_RBAR = 0, MPU_RASR = 0\<rparr>),
     frames = [example_frame service, example_frame 0, example_frame 0]\<rparr>"

section \<open>Properties of the lock primitives\<close>

subsection \<open>Bytes in 32-bit registers\<close>

lemma ucast_8_32_back: "(ucast (ucast (a :: 8 word) :: 32 word) :: 8 word) = a"
  by (rule ucast_up_ucast_id) (simp add: is_up)

lemma ucast_8_32_eq: "((ucast (a :: 8 word) :: 32 word) = ucast (b :: 8 word)) = (a = b)"
  by (metis ucast_8_32_back)

lemma ucast_8_32_eq_FF: "((ucast (a :: 8 word) :: 32 word) = 0xFF) = (a = 0xFF)"
  using ucast_8_32_eq [of a "0xFF"] by simp

lemma ucast_8_32_eq_0: "((ucast (a :: 8 word) :: 32 word) = 0) = (a = 0)"
  using ucast_8_32_eq [of a 0] by simp

lemma sint_ucast_8_32: "sint (ucast (a :: 8 word) :: 32 word) = uint a"
proof -
  have "uint a < 2 ^ 8" using uint_bounded [of a] by simp
  then have "uint a < 2 ^ 31" by simp
  moreover have "- (2 ^ 31) \<le> (0::int)" by simp
  then have "- (2 ^ 31) \<le> uint a" using uint_nonnegative [of a] by (rule order_trans)
  ultimately have "signed_take_bit 31 (uint a) = uint a"
    by (simp only: signed_take_bit_int_eq_self_iff) 
  then show ?thesis
    by (simp add: signed_ucast_eq)
qed

lemma ucast_plus1: "(ucast ((ucast (a :: 8 word) :: 32 word) + 1) :: 8 word) = a + 1"
  apply transfer
  apply (simp add: take_bit_eq_mod mod_simps)
  done

lemma ucast_minus1: "(ucast ((ucast (a :: 8 word) :: 32 word) - 1) :: 8 word) = a - 1"
proof -
  have "(256::int) dvd 4294967296" by simp
  then have *: "\<And>k::int. k mod 4294967296 mod 256 = k mod 256" by (rule mod_mod_cancel)
  show ?thesis
    apply transfer
    apply (simp add: take_bit_eq_mod * mod_simps)
    done
qed

lemma futex_fast_lock_bytes:
  "futex_fast_lock excl futex thread_id max_depth =
    (if owner futex \<noteq> 0xFF \<and> owner futex \<noteq> thread_id then (1, futex)
     else if sint max_depth < uint (state futex) then (1, futex)
     else STREXB excl (state futex + 1) futex)"
  by (simp add: futex_fast_lock_def Let_def ucast_8_32_eq ucast_8_32_eq_FF
      word_sless_alt sint_ucast_8_32 ucast_plus1)

lemma futex_fast_unlock_bytes:
  "futex_fast_unlock excl futex thread_id =
    (if state futex = 0 then (1, futex)
     else if owner futex \<noteq> thread_id then (1, futex)
     else STREXB excl (state futex - 1) futex)"
  by (simp add: futex_fast_unlock_def Let_def ucast_8_32_eq ucast_8_32_eq_0 ucast_minus1)

lemma fast_lock_success_iff:
  assumes "owner futex = 0xFF \<or> owner futex = thread_id"
  shows "(fst (futex_fast_lock True futex thread_id max_depth) = 0)
         = (uint (state futex) \<le> sint max_depth)"
  using assms by (auto simp: futex_fast_lock_bytes STREXB_def)

lemma sint_small:
  assumes "unat (m :: 32 word) < 255" shows "sint m = int (unat m)"
proof -
  have u: "uint m = int (unat m)" by (rule uint_nat)
  with assms have "uint m < 255" by linarith
  then have "uint m < 2 ^ 31" by simp
  moreover have "- (2 ^ 31) \<le> (0::int)" by simp
  then have "- (2 ^ 31) \<le> uint m" using uint_nonnegative [of m] by (rule order_trans)
  ultimately have "signed_take_bit 31 (uint m) = uint m"
    by (simp only: signed_take_bit_int_eq_self_iff)
  then have "sint m = uint m" by (simp add: sint_uint)
  with u show ?thesis by (simp only:)
qed

lemma unat_byte_succ:
  assumes "unat (a :: 8 word) < 255" shows "unat (a + 1) = Suc (unat a)"
proof -
  have "a + 1 \<noteq> 0"
  proof
    assume "a + 1 = 0"
    then have "a = - 1" by (simp add: add_eq_0_iff2)
    also have "(- 1 :: 8 word) = 255" by simp
    finally have "unat a = 255" by simp
    with assms show False by simp
  qed
  then have "1 + a \<noteq> 0" by (simp add: add.commute)
  then show ?thesis using unatSuc [of a] by (simp add: add.commute)
qed

lemma repeat_fast_lock_run:
  assumes "owner futex = 0xFF \<or> owner futex = thread_id"
    and "unat max_depth < 255"
    and "unat (state futex) + j = unat max_depth + 1"
  shows "fst (repeat_fast_lock (Suc j) futex thread_id max_depth) = replicate j 0 @ [1]"
  using assms
proof (induction j arbitrary: futex)
  case 0
  have u: "uint (state futex) = int (unat (state futex))" by (rule uint_nat)
  have sm: "sint max_depth = int (unat max_depth)" using 0(2) by (rule sint_small)
  have "sint max_depth < uint (state futex)"
    unfolding sm u using 0(3) by linarith
  with 0 show ?case
    by (auto simp: futex_fast_lock_bytes)
next
  case (Suc j)
  let ?f = "futex\<lparr>state := state futex + 1\<rparr>"
  have u: "uint (state futex) = int (unat (state futex))" by (rule uint_nat)
  have sm: "sint max_depth = int (unat max_depth)" using Suc.prems(2) by (rule sint_small)
  have le: "\<not> sint max_depth < uint (state futex)"
    unfolding sm u using Suc.prems(3) by linarith
  from Suc.prems have "unat (state futex) < 255" by simp
  then have st: "unat (state ?f) = Suc (unat (state futex))"
    by (simp add: unat_byte_succ)
  have step: "futex_fast_lock True futex thread_id max_depth = (0, ?f)"
    using Suc.prems(1) le by (auto simp: futex_fast_lock_bytes STREXB_def)
  have "fst (repeat_fast_lock (Suc j) ?f thread_id max_depth) = replicate j 0 @ [1]"
  proof (rule Suc.IH)
    show "owner ?f = 0xFF \<or> owner ?f = thread_id" using Suc.prems(1) by simp
    show "unat max_depth < 255" by (rule Suc.prems(2))
    show "unat (state ?f) + j = unat max_depth + 1" using Suc.prems(3) st by simp
  qed
  then show ?case
    using step by (simp add: split_beta del: repeat_fast_lock.simps(2)
        add: repeat_fast_lock.simps(2) [of "Suc j"])
qed

subsection \<open>Binary lock\<close>

text \<open>
  Claim C1. \<^verbatim>\<open>mutex_trylock\<close> on an unlocked lock (state 0, owner the sentinel 0xFF)
  should return 0 and leave state 1 and the caller as owner. The code compares the
  owner with the caller before anything else and has no case for the sentinel: for
  every thread id other than 0xFF it returns \<^verbatim>\<open>E_BUSY\<close> and leaves the lock as it was,
  whatever the exclusive store would have done. \<^verbatim>\<open>mutex_lock\<close>, whose guard does
  accept the sentinel, takes the same lock at its first turn.
\<close>

theorem mutex_trylock_unlocked_is_busy:
  assumes "state mutex = 0" and "owner mutex = 0xFF" and "thread_id \<noteq> 0xFF"
  shows "mutex_trylock excl mutex thread_id = (Inl E_BUSY, mutex) \<and>
         mutex_lock (True # rest) mutex thread_id
           = Some (Inr 0, mutex\<lparr>state := 1, owner := thread_id\<rparr>)"
  using assms by (simp add: mutex_trylock_def STREXB_def)

text \<open>Claim C1 at thread 1 and a freshly initialised lock.\<close>

theorem mutex_trylock_unlocked_is_busy_witness:
  "state \<lparr>state = 0, owner = 0xFF, flags = 1\<rparr> = 0 \<and>
   owner \<lparr>state = 0, owner = 0xFF, flags = 1\<rparr> = 0xFF \<and> (1 :: 8 word) \<noteq> 0xFF \<and>
   mutex_trylock True \<lparr>state = 0, owner = 0xFF, flags = 1\<rparr> 1
     = (Inl E_BUSY, \<lparr>state = 0, owner = 0xFF, flags = 1\<rparr>) \<and>
   mutex_lock [True] \<lparr>state = 0, owner = 0xFF, flags = 1\<rparr> 1
     = Some (Inr 0, \<lparr>state = 1, owner = 1, flags = 1\<rparr>)"
  using mutex_trylock_unlocked_is_busy
    [of "\<lparr>state = 0, owner = 0xFF, flags = 1\<rparr>" 1 True "[]"]
  by simp

text \<open>
  Claim C2. \<^verbatim>\<open>mutex_unlock\<close> on an unlocked lock (state 0, owner the sentinel 0xFF)
  should return 0 and leave the lock unchanged. The lock is left unchanged, whatever
  the exclusive stores would do, but the result is 0 only for the thread id 0xFF: the
  code compares the owner with the caller before it looks at the state and has no
  case for the sentinel, so every other thread gets \<^verbatim>\<open>E_BUSY\<close>, and the branch that
  returns 0 for an unlocked lock is not reached.
\<close>

theorem mutex_unlock_unlocked:
  assumes "state mutex = 0" and "owner mutex = 0xFF"
  shows "mutex_unlock excls mutex thread_id
           = Some (if thread_id = 0xFF then Inr 0 else Inl E_BUSY, mutex)"
  using assms by (auto simp: mutex_unlock_def)

text \<open>Claim C2 at thread 1 and a freshly initialised lock.\<close>

theorem mutex_unlock_unlocked_witness:
  "state \<lparr>state = 0, owner = 0xFF, flags = 1\<rparr> = 0 \<and>
   owner \<lparr>state = 0, owner = 0xFF, flags = 1\<rparr> = 0xFF \<and>
   mutex_unlock [True] \<lparr>state = 0, owner = 0xFF, flags = 1\<rparr> 1
     = Some (Inl E_BUSY, \<lparr>state = 0, owner = 0xFF, flags = 1\<rparr>)"
  using mutex_unlock_unlocked [of "\<lparr>state = 0, owner = 0xFF, flags = 1\<rparr>" "[True]" 1]
  by simp

subsection \<open>Mutual exclusion\<close>









subsection \<open>Recursive lock\<close>

text \<open>
  Claim C3 as stated fails: with \<^verbatim>\<open>max_depth\<close> 0, as \<^verbatim>\<open>futex_trylock\<close> passes it, a
  claim at depth 0 succeeds although 0 is not strictly less than 0.
\<close>

theorem futex_fast_lock_depth_counterexample:
  "futex_fast_lock True \<lparr>state = 0, owner = 0xFF, flags = 0\<rparr> 1 0
     = (0, \<lparr>state = 1, owner = 0xFF, flags = 0\<rparr>) \<and>
   \<not> unat (state \<lparr>state = 0, owner = 0xFF, flags = 0\<rparr>) < unat (0 :: 32 word)"
  by (simp add: futex_fast_lock_bytes STREXB_def)

text \<open>
  Claim C3, amended. With no spurious failure, a claim by the owner or on an unowned
  lock succeeds exactly when the depth is at most \<^verbatim>\<open>max_depth\<close> (read as a signed
  32-bit number, as \<^verbatim>\<open>BGT\<close> does). So from depth 0 and for \<^verbatim>\<open>max_depth\<close> below 255 the
  first \<^verbatim>\<open>max_depth\<close> + 1 claims in a row succeed and the next one fails.
\<close>

theorem futex_fast_lock_depth:
  assumes "owner futex = 0xFF \<or> owner futex = thread_id"
  shows "((fst (futex_fast_lock True futex thread_id max_depth) = 0)
            = (uint (state futex) \<le> sint max_depth)) \<and>
         (state futex = 0 \<and> unat max_depth < 255 \<longrightarrow>
            fst (repeat_fast_lock (unat max_depth + 2) futex thread_id max_depth)
              = replicate (unat max_depth + 1) 0 @ [1])"
proof (intro conjI impI)
  show "(fst (futex_fast_lock True futex thread_id max_depth) = 0)
          = (uint (state futex) \<le> sint max_depth)"
    using assms by (rule fast_lock_success_iff)
next
  assume a: "state futex = 0 \<and> unat max_depth < 255"
  have "fst (repeat_fast_lock (Suc (unat max_depth + 1)) futex thread_id max_depth)
          = replicate (unat max_depth + 1) 0 @ [1]"
    using assms a by (intro repeat_fast_lock_run) simp_all
  then show "fst (repeat_fast_lock (unat max_depth + 2) futex thread_id max_depth)
          = replicate (unat max_depth + 1) 0 @ [1]"
    by simp
qed

text \<open>Claim C3, amended, at \<^verbatim>\<open>max_depth\<close> 2: three claims succeed, the fourth fails.\<close>

theorem futex_fast_lock_depth_witness:
  "(owner \<lparr>state = 0, owner = 0xFF, flags = 0\<rparr> = 0xFF
      \<or> owner \<lparr>state = 0, owner = 0xFF, flags = 0\<rparr> = 1) \<and>
   fst (futex_fast_lock True \<lparr>state = 0, owner = 0xFF, flags = 0\<rparr> 1 2) = 0 \<and>
   fst (repeat_fast_lock 4 \<lparr>state = 0, owner = 0xFF, flags = 0\<rparr> 1 2)
     = replicate 3 0 @ [1]"
  using futex_fast_lock_depth [of "\<lparr>state = 0, owner = 0xFF, flags = 0\<rparr>" 1 2]
  by simp

text \<open>
  Claim C10. \<^verbatim>\<open>futex_unlock\<close> on a recursive lock of depth 0 returns 1, the failure
  result, for every thread id, and leaves the lock unchanged.
\<close>

theorem futex_unlock_depth_zero:
  assumes "state futex = 0"
  shows "futex_unlock excl futex thread_id = (1, futex)"
  using assms by (simp add: futex_unlock_def futex_fast_unlock_bytes)

text \<open>Claim C10 at thread 1 and a freshly initialised lock.\<close>

theorem futex_unlock_depth_zero_witness:
  "state \<lparr>state = 0, owner = 0xFF, flags = 0\<rparr> = 0 \<and>
   futex_unlock True \<lparr>state = 0, owner = 0xFF, flags = 0\<rparr> 1
     = (1, \<lparr>state = 0, owner = 0xFF, flags = 0\<rparr>)"
  using futex_unlock_depth_zero [of "\<lparr>state = 0, owner = 0xFF, flags = 0\<rparr>" True 1]
  by simp

section \<open>Properties of thread stacks and the process table\<close>

subsection \<open>Initial stack of a thread\<close>

lemma unat_sub_small:
  assumes "n \<le> unat (w :: 32 word)" and "n < 2 ^ 32"
  shows "unat (w - of_nat n) = unat w - n"
proof -
  have "unat (of_nat n :: 32 word) = n" using assms(2) by (simp add: unat_of_nat)
  moreover have "(of_nat n :: 32 word) \<le> w"
    using assms calculation by (simp add: word_le_nat_alt)
  ultimately show ?thesis by (simp add: unat_sub)
qed

text \<open>
  Claim C8 as stated fails: it is made for every stack size, and with a stack size of
  0 the index \<^verbatim>\<open>stack_size - 8\<close> wraps around to \<open>2\<^sup>3\<^sup>2 - 8\<close>, far outside an arena
  of 1024 words, so nothing is laid out in the thread's stack.
\<close>

theorem os_thread_populate_stack_counterexample:
  "os_thread_populate_stack 0x08000401 [replicate 1024 0] 0 0 0x08000201 0xCAFEBABE = None"
  by (simp add: os_thread_populate_stack_def os_stack_get_def store_word_def)

text \<open>
  Claim C8, amended. For every stack slot that exists and every stack size from 16 up
  to the number of words of that slot's arena, \<^verbatim>\<open>os_thread_populate_stack\<close> returns
  the address of word \<^verbatim>\<open>stack_size - 16\<close> and leaves \<open>data\<close> in the R0 word
  (\<^verbatim>\<open>stack_size - 8\<close>), the address of \<^verbatim>\<open>os_thread_dispose\<close> in the LR word
  (\<^verbatim>\<open>stack_size - 3\<close>), \<open>entrypoint\<close> in the PC word (\<^verbatim>\<open>stack_size - 2\<close>) and
  \<^verbatim>\<open>0x01000000\<close>, the Thumb bit alone, in the xPSR word (\<^verbatim>\<open>stack_size - 1\<close>); every
  other word and every other arena is untouched. So the exception return that first
  resumes the thread, eight words above the returned address, starts \<open>entrypoint\<close>
  with \<open>data\<close> as its first argument and \<^verbatim>\<open>os_thread_dispose\<close> as its return address,
  and an entrypoint that returns \<open>v\<close> continues in \<^verbatim>\<open>os_thread_dispose\<close> with \<open>v\<close> as
  the first argument.
\<close>

theorem os_thread_populate_stack_layout:
  assumes "0 \<le> stack_id" and "nat stack_id < length os_stacks"
    and "16 \<le> unat stack_size"
    and "unat stack_size \<le> length (os_stacks ! nat stack_id)"
  shows "case os_thread_populate_stack os_thread_dispose os_stacks stack_id stack_size
                entrypoint data of
           None \<Rightarrow> False
         | Some (stacks', sp) \<Rightarrow>
             sp = unat stack_size - 16 \<and>
             stacks' ! nat stack_id ! (unat stack_size - 8) = data \<and>
             stacks' ! nat stack_id ! (unat stack_size - 3) = os_thread_dispose \<and>
             stacks' ! nat stack_id ! (unat stack_size - 2) = entrypoint \<and>
             stacks' ! nat stack_id ! (unat stack_size - 1) = push_bit 24 1 \<and>
             length stacks' = length os_stacks \<and>
             length (stacks' ! nat stack_id) = length (os_stacks ! nat stack_id) \<and>
             (\<forall>j. j \<noteq> nat stack_id \<longrightarrow> stacks' ! j = os_stacks ! j) \<and>
             (\<forall>i. i \<notin> {unat stack_size - 8, unat stack_size - 3, unat stack_size - 2,
                        unat stack_size - 1} \<longrightarrow>
                  stacks' ! nat stack_id ! i = os_stacks ! nat stack_id ! i) \<and>
             exception_return (stacks' ! nat stack_id) sp
               = \<lparr>R0 = data, LR = os_thread_dispose, PC = entrypoint, xPSR = push_bit 24 1\<rparr> \<and>
             function_return v (exception_return (stacks' ! nat stack_id) sp)
               = \<lparr>R0 = v, LR = os_thread_dispose, PC = os_thread_dispose,
                  xPSR = push_bit 24 1\<rparr>"
proof -
  let ?n = "unat stack_size"
  let ?stack = "os_stacks ! nat stack_id"
  let ?stack' = "?stack[?n - 8 := data, ?n - 3 := os_thread_dispose, ?n - 2 := entrypoint,
                        ?n - 1 := 0x01000000]"
  have u8: "unat (stack_size - 8) = ?n - 8"
    using unat_sub_small [of 8 stack_size] assms(3) by simp
  have u3: "unat (stack_size - 3) = ?n - 3"
    using unat_sub_small [of 3 stack_size] assms(3) by simp
  have u2: "unat (stack_size - 2) = ?n - 2"
    using unat_sub_small [of 2 stack_size] assms(3) by simp
  have u1: "unat (stack_size - 1) = ?n - 1"
    using unat_sub_small [of 1 stack_size] assms(3) by simp
  have u16: "unat (stack_size - 16) = ?n - 16"
    using unat_sub_small [of 16 stack_size] assms(3) by simp
  have b: "?n - 8 < length ?stack" "?n - 3 < length ?stack" "?n - 2 < length ?stack"
    "?n - 1 < length ?stack" "?n - 16 < length ?stack"
    using assms(3,4) by simp_all
  have run: "os_thread_populate_stack os_thread_dispose os_stacks stack_id stack_size entrypoint data
           = Some (os_stacks[nat stack_id := ?stack'], ?n - 16)"
    using assms(1,2) b
    by (simp add: os_thread_populate_stack_def os_stack_get_def store_word_def u8 u3 u2 u1 u16)
  have slots: "?stack' ! (?n - 8) = data" "?stack' ! (?n - 3) = os_thread_dispose"
    "?stack' ! (?n - 2) = entrypoint" "?stack' ! (?n - 1) = 0x01000000"
    using assms(3,4) by (simp_all add: nth_list_update)
  have idx: "?n - 16 + 8 = ?n - 8" "?n - 16 + 13 = ?n - 3" "?n - 16 + 14 = ?n - 2"
    "?n - 16 + 15 = ?n - 1"
    using assms(3) by simp_all
  have others: "\<forall>i. i \<notin> {?n - 8, ?n - 3, ?n - 2, ?n - 1} \<longrightarrow> ?stack' ! i = ?stack ! i"
    by simp
  show ?thesis
    unfolding run using assms(2) slots others
    by (simp add: exception_return_def function_return_def idx)
qed

text \<open>
  Claim C8, amended, at the scenario of the spec: stack 3 of eight arenas of 1024
  words, stack size 1024, data \<^verbatim>\<open>0xCAFEBABE\<close>, and an entrypoint that returns 7.
\<close>

theorem os_thread_populate_stack_layout_witness:
  "case os_thread_populate_stack 0x08000401 (replicate 8 (replicate 1024 0)) 3 1024
          0x08000201 0xCAFEBABE of
     None \<Rightarrow> False
   | Some (stacks', sp) \<Rightarrow>
       sp = 1008 \<and>
       stacks' ! 3 ! 1016 = 0xCAFEBABE \<and>
       stacks' ! 3 ! 1021 = 0x08000401 \<and>
       stacks' ! 3 ! 1022 = 0x08000201 \<and>
       stacks' ! 3 ! 1023 = 0x01000000 \<and>
       exception_return (stacks' ! 3) sp
         = \<lparr>R0 = 0xCAFEBABE, LR = 0x08000401, PC = 0x08000201, xPSR = 0x01000000\<rparr> \<and>
       function_return 7 (exception_return (stacks' ! 3) sp)
         = \<lparr>R0 = 7, LR = 0x08000401, PC = 0x08000401, xPSR = 0x01000000\<rparr>"
  using os_thread_populate_stack_layout
    [where stack_id = 3 and os_stacks = "replicate 8 (replicate 1024 0)"
       and stack_size = 1024 and os_thread_dispose = "0x08000401"
       and entrypoint = "0x08000201" and data = "0xCAFEBABE" and v = 7]
  by (auto split: option.splits)

subsection \<open>Process creation\<close>

lemma length_set_mpu: "length (set_mpu ps p q r) = length ps"
  by (simp add: set_mpu_def)

lemma length_set_definition: "length (set_definition ps p d) = length ps"
  by (simp add: set_definition_def)

lemma set_mpu_same:
  "p < length ps \<Longrightarrow> set_mpu ps p q r ! p = (ps ! p)\<lparr>mpu := (mpu (ps ! p))[q := r]\<rparr>"
  by (simp add: set_mpu_def)

lemma set_mpu_other: "p' \<noteq> p \<Longrightarrow> set_mpu ps p q r ! p' = ps ! p'"
  by (simp add: set_mpu_def)

lemma set_definition_same:
  "p < length ps \<Longrightarrow> set_definition ps p d ! p = (ps ! p)\<lparr>process_definition := d\<rparr>"
  by (simp add: set_definition_def)

lemma set_definition_other: "p' \<noteq> p \<Longrightarrow> set_definition ps p d ! p' = ps ! p'"
  by (simp add: set_definition_def)

lemma configure_regions_fails_at:
  assumes "p < length ps"
    and "length (mpu (ps ! p)) = OS_TASK_MPU_REGIONS"
    and "q \<le> k" and "k < OS_TASK_MPU_REGIONS"
    and "\<forall>i. q \<le> i \<and> i < k \<longrightarrow> fst (region_call cfg defn i (mpu (ps ! p) ! i)) = E_OK"
    and "fst (region_call cfg defn k (mpu (ps ! p) ! k)) \<noteq> E_OK"
  shows "fst (configure_regions cfg p defn q ps) = Inl E_INVALID \<and>
         failed_at cfg defn p q k ps (snd (configure_regions cfg p defn q ps))"
  using assms
proof (induction "k - q" arbitrary: q ps)
  case 0
  then have qk: "q = k" by simp
  obtain rv regs where rc: "region_call cfg defn k (mpu (ps ! p) ! k) = (rv, regs)"
    by (cases "region_call cfg defn k (mpu (ps ! p) ! k)")
  with 0 have rv: "rv \<noteq> E_OK" by simp
  have res: "configure_regions cfg p defn q ps
      = (Inl E_INVALID, set_definition (set_mpu ps p k regs) p None)"
    using 0(5) rc rv qk by (simp add: configure_regions.simps [of cfg p defn k ps])
  have "failed_at cfg defn p q k ps (set_definition (set_mpu ps p k regs) p None)"
    using 0(2,3,5) rc qk
    by (auto simp: failed_at_def length_set_definition length_set_mpu set_definition_same
        set_mpu_same set_definition_other set_mpu_other nth_list_update)
  with res show ?case by simp
next
  case (Suc n)
  then have qk: "q < k" by simp
  obtain rv regs where rc: "region_call cfg defn q (mpu (ps ! p) ! q) = (rv, regs)"
    by (cases "region_call cfg defn q (mpu (ps ! p) ! q)")
  with Suc.prems(5) qk have rv: "rv = E_OK" by fastforce
  let ?ps1 = "set_mpu ps p q regs"
  have m1: "mpu (?ps1 ! p) = (mpu (ps ! p))[q := regs]"
    using Suc.prems(1) by (simp add: set_mpu_same)
  have same: "\<And>i. i \<noteq> q \<Longrightarrow> mpu (?ps1 ! p) ! i = mpu (ps ! p) ! i"
    by (simp add: m1)
  have step: "configure_regions cfg p defn q ps = configure_regions cfg p defn (q + 1) ?ps1"
    using qk Suc.prems(4) rc rv by (simp add: configure_regions.simps [of cfg p defn q ps])
  have ih: "fst (configure_regions cfg p defn (q + 1) ?ps1) = Inl E_INVALID \<and>
         failed_at cfg defn p (q + 1) k ?ps1 (snd (configure_regions cfg p defn (q + 1) ?ps1))"
  proof (rule Suc.hyps(1))
    show "n = k - (q + 1)" using Suc.hyps(2) by simp
    show "p < length ?ps1" using Suc.prems(1) by (simp add: length_set_mpu)
    show "length (mpu (?ps1 ! p)) = OS_TASK_MPU_REGIONS" using Suc.prems(2) by (simp add: m1)
    show "q + 1 \<le> k" using qk by simp
    show "k < OS_TASK_MPU_REGIONS" by (rule Suc.prems(4))
    show "\<forall>i. q + 1 \<le> i \<and> i < k \<longrightarrow> fst (region_call cfg defn i (mpu (?ps1 ! p) ! i)) = E_OK"
      using Suc.prems(5) by (simp add: same)
    show "fst (region_call cfg defn k (mpu (?ps1 ! p) ! k)) \<noteq> E_OK"
      using Suc.prems(6) qk by (simp add: same)
  qed
  have ql: "q < length (mpu (ps ! p))" using qk Suc.prems(2,4) by simp
  define ps' where "ps' = snd (configure_regions cfg p defn (q + 1) ?ps1)"
  from ih have f1: "failed_at cfg defn p (q + 1) k ?ps1 ps'" by (simp add: ps'_def)
  have "failed_at cfg defn p q k ps ps'"
    unfolding failed_at_def
  proof (intro conjI allI impI)
    show "length ps' = length ps" using f1 by (simp add: failed_at_def length_set_mpu)
    show "process_definition (ps' ! p) = None" using f1 by (simp add: failed_at_def)
    show "length (mpu (ps' ! p)) = length (mpu (ps ! p))"
      using f1 by (simp add: failed_at_def m1)
    show "ps' ! p' = ps ! p'" if "p' \<noteq> p" for p'
      using f1 that by (simp add: failed_at_def set_mpu_other)
    show "mpu (ps' ! p) ! i =
        (if q \<le> i \<and> i \<le> k then snd (region_call cfg defn i (mpu (ps ! p) ! i))
         else mpu (ps ! p) ! i)" for i
    proof (cases "i = q")
      case True
      from f1 have "mpu (ps' ! p) ! q = mpu (?ps1 ! p) ! q" by (simp add: failed_at_def)
      also have "\<dots> = regs" using ql by (simp add: m1)
      finally show ?thesis using True qk rc by simp
    next
      case False
      from f1 have "mpu (ps' ! p) ! i =
        (if q + 1 \<le> i \<and> i \<le> k then snd (region_call cfg defn i (mpu (?ps1 ! p) ! i))
         else mpu (?ps1 ! p) ! i)" by (simp add: failed_at_def)
      with False show ?thesis by (auto simp: same)
    qed
  qed
  with ih step show ?case by (simp add: ps'_def)
qed

text \<open>
  Claim C7. \<^verbatim>\<open>os_process_create\<close> returns \<^verbatim>\<open>E_OUT_OF_RANGE\<close> for every process id at
  or above \<^verbatim>\<open>OS_PROCESSES\<close>, and \<^verbatim>\<open>E_INVALID\<close>, its code for a duplicate, for every
  id in range whose slot already has a definition; in both cases the process table is
  returned as it was.
\<close>

theorem os_process_create_rejects:
  assumes "length table = OS_PROCESSES"
  shows "(OS_PROCESSES \<le> unat process_id \<longrightarrow>
            os_process_create cfg table process_id defn = (Inl E_OUT_OF_RANGE, table)) \<and>
         (unat process_id < OS_PROCESSES \<and>
          process_definition (table ! unat process_id) \<noteq> None \<longrightarrow>
            os_process_create cfg table process_id defn = (Inl E_INVALID, table))"
  by (simp add: os_process_create_def)

text \<open>Claim C7 at a table whose slot 3 is defined: id 8 is out of range, id 3 a duplicate.\<close>

theorem os_process_create_rejects_witness:
  "length ((replicate 8 \<lparr>process_definition = None,
                          mpu = replicate 5 \<lparr>MPU_RBAR = 0, MPU_RASR = 0\<rparr>\<rparr>)
             [3 := \<lparr>process_definition = Some \<lparr>mpu_regions = []\<rparr>,
                    mpu = replicate 5 \<lparr>MPU_RBAR = 0, MPU_RASR = 0\<rparr>\<rparr>]) = OS_PROCESSES \<and>
   os_process_create (\<lambda>q base size regs. (E_OK, regs))
     ((replicate 8 \<lparr>process_definition = None,
                     mpu = replicate 5 \<lparr>MPU_RBAR = 0, MPU_RASR = 0\<rparr>\<rparr>)
        [3 := \<lparr>process_definition = Some \<lparr>mpu_regions = []\<rparr>,
               mpu = replicate 5 \<lparr>MPU_RBAR = 0, MPU_RASR = 0\<rparr>\<rparr>])
     8 \<lparr>mpu_regions = []\<rparr>
     = (Inl E_OUT_OF_RANGE,
        (replicate 8 \<lparr>process_definition = None,
                       mpu = replicate 5 \<lparr>MPU_RBAR = 0, MPU_RASR = 0\<rparr>\<rparr>)
          [3 := \<lparr>process_definition = Some \<lparr>mpu_regions = []\<rparr>,
                 mpu = replicate 5 \<lparr>MPU_RBAR = 0, MPU_RASR = 0\<rparr>\<rparr>]) \<and>
   os_process_create (\<lambda>q base size regs. (E_OK, regs))
     ((replicate 8 \<lparr>process_definition = None,
                     mpu = replicate 5 \<lparr>MPU_RBAR = 0, MPU_RASR = 0\<rparr>\<rparr>)
        [3 := \<lparr>process_definition = Some \<lparr>mpu_regions = []\<rparr>,
               mpu = replicate 5 \<lparr>MPU_RBAR = 0, MPU_RASR = 0\<rparr>\<rparr>])
     3 \<lparr>mpu_regions = []\<rparr>
     = (Inl E_INVALID,
        (replicate 8 \<lparr>process_definition = None,
                       mpu = replicate 5 \<lparr>MPU_RBAR = 0, MPU_RASR = 0\<rparr>\<rparr>)
          [3 := \<lparr>process_definition = Some \<lparr>mpu_regions = []\<rparr>,
                 mpu = replicate 5 \<lparr>MPU_RBAR = 0, MPU_RASR = 0\<rparr>\<rparr>])"
  using os_process_create_rejects
    [of "(replicate 8 \<lparr>process_definition = None,
                        mpu = replicate 5 \<lparr>MPU_RBAR = 0, MPU_RASR = 0\<rparr>\<rparr>)
          [3 := \<lparr>process_definition = Some \<lparr>mpu_regions = []\<rparr>,
                 mpu = replicate 5 \<lparr>MPU_RBAR = 0, MPU_RASR = 0\<rparr>\<rparr>]"
        8 "\<lambda>q base size regs. (E_OK, regs)" "\<lparr>mpu_regions = []\<rparr>"]
    os_process_create_rejects
    [of "(replicate 8 \<lparr>process_definition = None,
                        mpu = replicate 5 \<lparr>MPU_RBAR = 0, MPU_RASR = 0\<rparr>\<rparr>)
          [3 := \<lparr>process_definition = Some \<lparr>mpu_regions = []\<rparr>,
                 mpu = replicate 5 \<lparr>MPU_RBAR = 0, MPU_RASR = 0\<rparr>\<rparr>]"
        3 "\<lambda>q base size regs. (E_OK, regs)" "\<lparr>mpu_regions = []\<rparr>"]
  by (simp add: OS_PROCESSES_def)

text \<open>
  Claim C6. When \<^verbatim>\<open>os_process_create\<close> is called for an undefined process id in range
  and \<open>k\<close> is the first region that \<^verbatim>\<open>mpu_configure_region\<close> rejects, the call returns
  \<^verbatim>\<open>E_INVALID\<close> and the slot's definition is null again, but the descriptors of the
  regions before \<open>k\<close> hold what the calls for them computed: they are not rolled back.
  The slots of the other processes are untouched.
\<close>

theorem os_process_create_no_rollback:
  assumes "length table = OS_PROCESSES"
    and "unat process_id < OS_PROCESSES"
    and "process_definition (table ! unat process_id) = None"
    and "length (mpu (table ! unat process_id)) = OS_TASK_MPU_REGIONS"
    and "length (mpu_regions defn) = OS_TASK_MPU_REGIONS"
    and "k < OS_TASK_MPU_REGIONS"
    and "\<forall>i<k. fst (region_call cfg defn i (mpu (table ! unat process_id) ! i)) = E_OK"
    and "fst (region_call cfg defn k (mpu (table ! unat process_id) ! k)) \<noteq> E_OK"
  shows "fst (os_process_create cfg table process_id defn) = Inl E_INVALID \<and>
         process_definition (snd (os_process_create cfg table process_id defn) ! unat process_id)
           = None \<and>
         (\<forall>i<k. mpu (snd (os_process_create cfg table process_id defn) ! unat process_id) ! i
                  = snd (region_call cfg defn i (mpu (table ! unat process_id) ! i))) \<and>
         (\<forall>p. p \<noteq> unat process_id \<longrightarrow>
                snd (os_process_create cfg table process_id defn) ! p = table ! p)"
proof -
  let ?p = "unat process_id"
  let ?t0 = "set_definition table ?p (Some defn)"
  have p: "?p < length table" using assms(1,2) by simp
  have m0: "mpu (?t0 ! ?p) = mpu (table ! ?p)" using p by (simp add: set_definition_same)
  have run: "os_process_create cfg table process_id defn = configure_regions cfg ?p defn 0 ?t0"
    using assms(2,3) by (simp add: os_process_create_def)
  have loop: "fst (configure_regions cfg ?p defn 0 ?t0) = Inl E_INVALID \<and>
      failed_at cfg defn ?p 0 k ?t0 (snd (configure_regions cfg ?p defn 0 ?t0))"
  proof (rule configure_regions_fails_at)
    show "?p < length ?t0" using p by (simp add: length_set_definition)
    show "length (mpu (?t0 ! ?p)) = OS_TASK_MPU_REGIONS" using assms(4) by (simp add: m0)
    show "0 \<le> k" by simp
    show "k < OS_TASK_MPU_REGIONS" by (rule assms(6))
    show "\<forall>i. 0 \<le> i \<and> i < k \<longrightarrow> fst (region_call cfg defn i (mpu (?t0 ! ?p) ! i)) = E_OK"
      using assms(7) by (simp add: m0)
    show "fst (region_call cfg defn k (mpu (?t0 ! ?p) ! k)) \<noteq> E_OK"
      using assms(8) by (simp add: m0)
  qed
  then show ?thesis
    unfolding run by (simp add: failed_at_def m0 set_definition_other)
qed

text \<open>
  Claim C6 at a definition whose region 0 is valid and whose region 1 is empty: after
  the failed call the descriptor of region 0 of process 2 is no longer the zero it was.
\<close>

theorem os_process_create_no_rollback_witness:
  "fst (os_process_create
          (\<lambda>q base size regs. if size = 0 then (Inl E_INVALID, regs)
                               else (E_OK, \<lparr>MPU_RBAR = base, MPU_RASR = size\<rparr>))
          (replicate 8 \<lparr>process_definition = None,
                         mpu = replicate 5 \<lparr>MPU_RBAR = 0, MPU_RASR = 0\<rparr>\<rparr>)
          2
          \<lparr>mpu_regions = [\<lparr>region_start = 0x20000000, region_end = 0x20000100\<rparr>,
                          \<lparr>region_start = 0x20000100, region_end = 0x20000100\<rparr>,
                          \<lparr>region_start = 0, region_end = 0\<rparr>,
                          \<lparr>region_start = 0, region_end = 0\<rparr>,
                          \<lparr>region_start = 0, region_end = 0\<rparr>]\<rparr>) = Inl E_INVALID \<and>
   process_definition (snd (os_process_create
          (\<lambda>q base size regs. if size = 0 then (Inl E_INVALID, regs)
                               else (E_OK, \<lparr>MPU_RBAR = base, MPU_RASR = size\<rparr>))
          (replicate 8 \<lparr>process_definition = None,
                         mpu = replicate 5 \<lparr>MPU_RBAR = 0, MPU_RASR = 0\<rparr>\<rparr>)
          2
          \<lparr>mpu_regions = [\<lparr>region_start = 0x20000000, region_end = 0x20000100\<rparr>,
                          \<lparr>region_start = 0x20000100, region_end = 0x20000100\<rparr>,
                          \<lparr>region_start = 0, region_end = 0\<rparr>,
                          \<lparr>region_start = 0, region_end = 0\<rparr>,
                          \<lparr>region_start = 0, region_end = 0\<rparr>]\<rparr>) ! 2) = None \<and>
   mpu (snd (os_process_create
          (\<lambda>q base size regs. if size = 0 then (Inl E_INVALID, regs)
                               else (E_OK, \<lparr>MPU_RBAR = base, MPU_RASR = size\<rparr>))
          (replicate 8 \<lparr>process_definition = None,
                         mpu = replicate 5 \<lparr>MPU_RBAR = 0, MPU_RASR = 0\<rparr>\<rparr>)
          2
          \<lparr>mpu_regions = [\<lparr>region_start = 0x20000000, region_end = 0x20000100\<rparr>,
                          \<lparr>region_start = 0x20000100, region_end = 0x20000100\<rparr>,
                          \<lparr>region_start = 0, region_end = 0\<rparr>,
                          \<lparr>region_start = 0, region_end = 0\<rparr>,
                          \<lparr>region_start = 0, region_end = 0\<rparr>]\<rparr>) ! 2) ! 0
     = \<lparr>MPU_RBAR = 0x20000000, MPU_RASR = 0x100\<rparr>"
  using os_process_create_no_rollback
    [where table = "replicate 8 \<lparr>process_definition = None,
                       mpu = replicate 5 \<lparr>MPU_RBAR = 0, MPU_RASR = 0\<rparr>\<rparr>"
       and process_id = 2 and k = 1
       and cfg = "\<lambda>q base size regs. if size = 0 then (Inl E_INVALID, regs)
                             else (E_OK, \<lparr>MPU_RBAR = base, MPU_RASR = size\<rparr>)"
       and defn = "\<lparr>mpu_regions = [\<lparr>region_start = 0x20000000, region_end = 0x20000100\<rparr>,
                          \<lparr>region_start = 0x20000100, region_end = 0x20000100\<rparr>,
                          \<lparr>region_start = 0, region_end = 0\<rparr>,
                          \<lparr>region_start = 0, region_end = 0\<rparr>,
                          \<lparr>region_start = 0, region_end = 0\<rparr>]\<rparr>"]
  by (simp add: OS_PROCESSES_def OS_TASK_MPU_REGIONS_def region_call_def E_OK_def)

section \<open>Properties of cross-process calls\<close>

text \<open>
  Claim C4. If the exporting process of the service's method table cannot be resolved,
  \<^verbatim>\<open>os_rpc_call\<close> returns \<^verbatim>\<open>E_INVALID_ADDRESS\<close>; if it can, but the thread's call stack
  is already at its configured depth, it returns \<^verbatim>\<open>E_IN_TOO_DEEP\<close>. In both cases the
  whole kernel state, and so the call stack, the active mapping and the activation
  records, is as before.
\<close>

theorem os_rpc_call_failures:
  assumes "frames s = local_frame # stacked"
  shows "let process_id = get_vtable_process env (os_processes s)
                            (service_vtable env (get_exception_argument local_frame 4))
         in (process_id = E_VTABLE_UNKNOWN \<longrightarrow>
               os_rpc_call env s arg0 arg1 arg2 arg3 = Returned (Inl E_INVALID_ADDRESS) s) \<and>
            (process_id \<noteq> E_VTABLE_UNKNOWN \<and> rpc_stack_depth env \<le> length (rpc_stack s) \<longrightarrow>
               os_rpc_call env s arg0 arg1 arg2 arg3 = Returned (Inl E_IN_TOO_DEEP) s)"
  using assms by (simp add: os_rpc_call_def Let_def rpc_stack_push_def)

text \<open>
  Claim C4 at the example: a service whose table is unknown, and a call through the
  table of process 1 with the call stack full.
\<close>

theorem os_rpc_call_failures_witness:
  "os_rpc_call example_env (example_kernel 0x08002000 [] 0) 0 0 0 0
     = Returned (Inl E_INVALID_ADDRESS) (example_kernel 0x08002000 [] 0) \<and>
   os_rpc_call example_env (example_kernel 0x08003000 [1, 1] 0) 0 0 0 0
     = Returned (Inl E_IN_TOO_DEEP) (example_kernel 0x08003000 [1, 1] 0)"
  using os_rpc_call_failures
      [where s = "example_kernel 0x08002000 [] 0" and env = example_env
         and local_frame = "example_frame 0x08002000"
         and stacked = "[example_frame 0, example_frame 0]"
         and ?arg0.0 = 0 and ?arg1.0 = 0 and ?arg2.0 = 0 and ?arg3.0 = 0]
    os_rpc_call_failures
      [where s = "example_kernel 0x08003000 [1, 1] 0" and env = example_env
         and local_frame = "example_frame 0x08003000"
         and stacked = "[example_frame 0, example_frame 0]"
         and ?arg0.0 = 0 and ?arg1.0 = 0 and ?arg2.0 = 0 and ?arg3.0 = 0]
  by (simp add: example_kernel_def example_env_def example_frame_def
      get_exception_argument_def E_VTABLE_UNKNOWN_def)

text \<open>
  Claim C5. \<^verbatim>\<open>os_rpc_return\<close> pops the call stack and resolves the process to return
  to: the new top of the stack if the stack is still non-empty, the thread's home
  process otherwise. If that is the sentinel \<^verbatim>\<open>E_VTABLE_UNKNOWN\<close> the kernel halts and
  nothing is returned; if it is a process of the table, the call returns \<^verbatim>\<open>arg0\<close> and
  the first \<^verbatim>\<open>MPU_HOSTED_STATE_SIZE\<close> active regions are that process's descriptors, the
  other regions being as before.
\<close>

theorem os_rpc_return_mapping:
  assumes "frames s = remote_frame # local_frame # stacked"
  shows "let process_id = (case tl (rpc_stack s) of
                             [] \<Rightarrow> home_process s
                           | caller # below \<Rightarrow> caller)
         in (process_id = E_VTABLE_UNKNOWN \<longrightarrow> os_rpc_return s arg0 arg1 arg2 arg3 = Halted) \<and>
            (process_id \<noteq> E_VTABLE_UNKNOWN \<and> unat process_id < length (os_processes s) \<and>
             MPU_HOSTED_STATE_SIZE \<le> length (mpu (os_processes s ! unat process_id)) \<longrightarrow>
               (case os_rpc_return s arg0 arg1 arg2 arg3 of
                  Returned rv s' \<Rightarrow>
                    rv = Inr (sint arg0) \<and>
                    rpc_stack s' = tl (rpc_stack s) \<and>
                    (\<forall>i<MPU_HOSTED_STATE_SIZE.
                       mpu_active s' i = mpu (os_processes s ! unat process_id) ! i) \<and>
                    (\<forall>i. MPU_HOSTED_STATE_SIZE \<le> i \<longrightarrow> mpu_active s' i = mpu_active s i)
                | _ \<Rightarrow> False))"
  using assms
  by (cases "tl (rpc_stack s)")
     (simp_all add: os_rpc_return_def Let_def rpc_stack_pop_def rpc_stack_top_def
        os_get_current_process_def mpu_load_def)

text \<open>
  Claim C5 at the example: an unresolvable home process halts; returning with process
  1 below the top loads the regions of process 1; returning from the only call loads
  those of the home process 0.
\<close>

theorem os_rpc_return_mapping_witness:
  "os_rpc_return (example_kernel 0 [2] 0xFF) 7 0 0 0 = Halted \<and>
   (case os_rpc_return (example_kernel 0 [2, 1] 0) 7 0 0 0 of
      Returned rv s' \<Rightarrow>
        rv = Inr 7 \<and> rpc_stack s' = [1] \<and>
        mpu_active s' 0 = \<lparr>MPU_RBAR = 0x20001000, MPU_RASR = 0x13\<rparr>
    | _ \<Rightarrow> False) \<and>
   (case os_rpc_return (example_kernel 0 [2] 0) 7 0 0 0 of
      Returned rv s' \<Rightarrow>
        rv = Inr 7 \<and> rpc_stack s' = [] \<and>
        mpu_active s' 0 = \<lparr>MPU_RBAR = 0x20000000, MPU_RASR = 0x13\<rparr>
    | _ \<Rightarrow> False)"
  using os_rpc_return_mapping
      [where s = "example_kernel 0 [2] 0xFF" and remote_frame = "example_frame 0"
         and local_frame = "example_frame 0" and stacked = "[example_frame 0]"
         and ?arg0.0 = 7 and ?arg1.0 = 0 and ?arg2.0 = 0 and ?arg3.0 = 0]
    os_rpc_return_mapping
      [where s = "example_kernel 0 [2, 1] 0" and remote_frame = "example_frame 0"
         and local_frame = "example_frame 0" and stacked = "[example_frame 0]"
         and ?arg0.0 = 7 and ?arg1.0 = 0 and ?arg2.0 = 0 and ?arg3.0 = 0]
    os_rpc_return_mapping
      [where s = "example_kernel 0 [2] 0" and remote_frame = "example_frame 0"
         and local_frame = "example_frame 0" and stacked = "[example_frame 0]"
         and ?arg0.0 = 7 and ?arg1.0 = 0 and ?arg2.0 = 0 and ?arg3.0 = 0]
  by (auto simp: example_kernel_def example_process_def E_VTABLE_UNKNOWN_def
      MPU_HOSTED_STATE_SIZE_def split: outcome.splits)

end
